theory Spec2Isabelle
  imports Main
begin

section \<open>The dropdown controller of src/components/dropdown/index.ts\<close>

text \<open>
  DOM nodes and function objects are opaque handles. Two closures created by two
  evaluations of the same arrow function are two different objects, so every closure
  the controller creates gets a fresh handle from a counter.
\<close>

type_synonym node = nat
type_synonym fn = nat

text \<open>
  A JavaScript number as far as the controller sees one: an integer or \<open>NaN\<close>.
  The rounding of integers beyond \<open>2 ^ 53\<close> to a double and the sign of zero are
  left out.
\<close>

datatype js_number = Num int | NaN

record DropdownOptions =
  placement :: string
  triggerType :: string
  offsetSkidding :: js_number
  offsetDistance :: js_number

text \<open>
  The \<open>onShow\<close> and \<open>onHide\<close> fields of the options are the callbacks. A call of one
  is recorded in the trace of effects below, with the controller it receives; the
  callback itself is opaque, and is taken not to call back into the controller
  (the no-op callbacks of \<open>Default\<close> do not).
\<close>

definition Default :: DropdownOptions where
  "Default = \<lparr>placement = ''bottom'', triggerType = ''click'',
     offsetSkidding = Num 0, offsetDistance = Num 10\<rparr>"

text \<open>The options object a caller passes: every property may be missing.\<close>

record OptionsArg =
  arg_placement :: "string option"
  arg_triggerType :: "string option"
  arg_offsetSkidding :: "js_number option"
  arg_offsetDistance :: "js_number option"

text \<open>\<open>{ ...Default, ...options }\<close>\<close>

definition merge_options :: "DropdownOptions \<Rightarrow> OptionsArg \<Rightarrow> DropdownOptions" where
  "merge_options d a =
     \<lparr>placement = (case arg_placement a of None \<Rightarrow> placement d | Some v \<Rightarrow> v),
      triggerType = (case arg_triggerType a of None \<Rightarrow> triggerType d | Some v \<Rightarrow> v),
      offsetSkidding = (case arg_offsetSkidding a of None \<Rightarrow> offsetSkidding d | Some v \<Rightarrow> v),
      offsetDistance = (case arg_offsetDistance a of None \<Rightarrow> offsetDistance d | Some v \<Rightarrow> v)\<rparr>"

text \<open>
  The fields of the class. \<open>_targetEl\<close> is declared as an element and used
  without a test; \<open>_triggerEl\<close> is tested against null by \<open>_init\<close>, so it is
  an option here.
  \<open>_clickOutsideEventListener\<close> is undefined until the first \<open>show()\<close>.
  The state of the positioning engine behind \<open>_popperInstance\<close> is kept in the
  world below.
\<close>

record Dropdown =
  targetEl :: node
  triggerEl :: "node option"
  options :: DropdownOptions
  visible :: bool
  clickOutsideEventListener :: "fn option"

text \<open>An entry of the positioning engine's \<open>modifiers\<close> array.\<close>

datatype modifier = Offset js_number js_number | EventListeners bool

record popper_options =
  popper_placement :: string
  modifiers :: "modifier list"

text \<open>
  The listeners \<open>_init\<close> attaches to the trigger and target elements, by what their
  bodies do: call \<open>toggle()\<close>; call \<open>toggle()\<close> if the captured event name is
  \<open>click\<close> and \<open>show()\<close> otherwise; call \<open>show()\<close>; set a timer of 100 ms that
  calls \<open>hide()\<close> unless the given element matches \<open>:hover\<close>.
\<close>

datatype handler =
    CallToggle
  | ToggleOrShow string
  | CallShow
  | HideUnlessHovered node

datatype console_entry =
    ConsoleLog "string list" "string list"
  | ConsoleError string

text \<open>The calls the controller makes on its collaborators, in the order it makes them.\<close>

datatype effect =
    ClassListRemove string
  | ClassListAdd string
  | PopperSetOptions modifier
  | AddEventListener fn
  | RemoveEventListener "fn option"
  | PopperUpdate
  | OnShow Dropdown
  | OnHide Dropdown

text \<open>
  One controller and the part of the page it acts on: the class list of its target
  element, the options of its positioning engine, the capture-phase \<open>click\<close>
  listeners of \<open>document.body\<close>, the listeners attached to the trigger and target
  elements, the console, and the counter of function objects.
\<close>

record world =
  this :: Dropdown
  classList :: "string set"
  popperOptions :: popper_options
  bodyListeners :: "fn list"
  elListeners :: "(node \<times> string \<times> handler) list"
  nextFn :: fn
  console :: "console_entry list"
  trace :: "effect list"

subsection \<open>The DOM and positioning-engine calls\<close>

definition classList_remove :: "string \<Rightarrow> world \<Rightarrow> world" where
  "classList_remove c w =
     w\<lparr>classList := classList w - {c}, trace := trace w @ [ClassListRemove c]\<rparr>"

definition classList_add :: "string \<Rightarrow> world \<Rightarrow> world" where
  "classList_add c w =
     w\<lparr>classList := insert c (classList w), trace := trace w @ [ClassListAdd c]\<rparr>"

text \<open>
  \<open>setOptions\<close> with the updater of \<open>show()\<close> and \<open>hide()\<close>: the options are kept
  and one entry is appended to \<open>modifiers\<close>.
\<close>

definition popper_setOptions :: "modifier \<Rightarrow> world \<Rightarrow> world" where
  "popper_setOptions m w =
     w\<lparr>popperOptions := (popperOptions w)\<lparr>modifiers := modifiers (popperOptions w) @ [m]\<rparr>,
       trace := trace w @ [PopperSetOptions m]\<rparr>"

definition popper_update :: "world \<Rightarrow> world" where
  "popper_update w = w\<lparr>trace := trace w @ [PopperUpdate]\<rparr>"

text \<open>
  \<open>addEventListener\<close> does nothing when the same callback is already registered for
  the same type and phase; \<open>removeEventListener\<close> removes the registration of the
  callback it is given, and does nothing for a callback that is not registered or
  is undefined.
\<close>

definition addEventListener :: "fn \<Rightarrow> fn list \<Rightarrow> fn list" where
  "addEventListener f ls = (if f \<in> set ls then ls else ls @ [f])"

definition removeEventListener :: "fn option \<Rightarrow> fn list \<Rightarrow> fn list" where
  "removeEventListener r ls = (case r of None \<Rightarrow> ls | Some f \<Rightarrow> remove1 f ls)"

subsection \<open>The methods of the class\<close>

definition Dropdown_getTriggerEvents :: "Dropdown \<Rightarrow> string list \<times> string list" where
  "Dropdown_getTriggerEvents d =
     (if triggerType (options d) = ''hover'' then ([''mouseenter'', ''click''], [''mouseleave''])
      else if triggerType (options d) = ''click'' then ([''click''], [])
      else ([''click''], []))"

text \<open>
  \<open>_init\<close>: the listeners it attaches, in the order of the \<open>addEventListener\<close>
  calls, and what it writes to the console.
\<close>

definition Dropdown_init :: "world \<Rightarrow> world" where
  "Dropdown_init w =
     (case triggerEl (this w) of
        None \<Rightarrow> w
      | Some t \<Rightarrow>
          (let triggerEvents = Dropdown_getTriggerEvents (this w);
               showEvents = fst triggerEvents;
               hideEvents = snd triggerEvents;
               w1 = (if triggerType (options (this w)) = ''click''
                     then w\<lparr>elListeners := elListeners w @
                            map (\<lambda>ev. (t, ev, CallToggle)) showEvents\<rparr>
                     else w)
           in if triggerType (options (this w)) = ''hover''
              then w1\<lparr>console := console w1 @ [ConsoleLog showEvents hideEvents],
                      elListeners := elListeners w1 @
                        concat (map (\<lambda>ev. [(t, ev, ToggleOrShow ev),
                                            (targetEl (this w), ev, CallShow)]) showEvents) @
                        concat (map (\<lambda>ev. [(t, ev, HideUnlessHovered (targetEl (this w))),
                                            (targetEl (this w), ev, HideUnlessHovered t)]) hideEvents)\<rparr>
              else w1))"

definition Dropdown_createPopperInstance :: "Dropdown \<Rightarrow> popper_options" where
  "Dropdown_createPopperInstance d =
     \<lparr>popper_placement = placement (options d),
      modifiers = [Offset (offsetSkidding (options d)) (offsetDistance (options d))]\<rparr>"

text \<open>
  The constructor, on a page where the target element carries the classes \<open>cls\<close>
  and nothing else has a listener on \<open>document.body\<close>.
\<close>

definition Dropdown_new :: "node \<Rightarrow> node option \<Rightarrow> OptionsArg \<Rightarrow> string set \<Rightarrow> world" where
  "Dropdown_new targetElement triggerElement opts cls =
     (let d = \<lparr>targetEl = targetElement, triggerEl = triggerElement,
               options = merge_options Default opts, visible = False,
               clickOutsideEventListener = None\<rparr>
      in Dropdown_init
           \<lparr>this = d, classList = cls, popperOptions = Dropdown_createPopperInstance d,
            bodyListeners = [], elListeners = [], nextFn = 0, console = [], trace = []\<rparr>)"

definition Dropdown_setupClickOutsideListener :: "world \<Rightarrow> world" where
  "Dropdown_setupClickOutsideListener w =
     (let f = nextFn w
      in w\<lparr>this := (this w)\<lparr>clickOutsideEventListener := Some f\<rparr>,
           nextFn := Suc f,
           bodyListeners := addEventListener f (bodyListeners w),
           trace := trace w @ [AddEventListener f]\<rparr>)"

definition Dropdown_removeClickOutsideListener :: "world \<Rightarrow> world" where
  "Dropdown_removeClickOutsideListener w =
     w\<lparr>bodyListeners :=
         removeEventListener (clickOutsideEventListener (this w)) (bodyListeners w),
       trace := trace w @ [RemoveEventListener (clickOutsideEventListener (this w))]\<rparr>"

definition onShow :: "world \<Rightarrow> world" where
  "onShow w = w\<lparr>trace := trace w @ [OnShow (this w)]\<rparr>"

definition onHide :: "world \<Rightarrow> world" where
  "onHide w = w\<lparr>trace := trace w @ [OnHide (this w)]\<rparr>"

definition Dropdown_show :: "world \<Rightarrow> world" where
  "Dropdown_show w =
     (let w1 = classList_remove ''hidden'' w;
          w2 = classList_add ''block'' w1;
          w3 = popper_setOptions (EventListeners True) w2;
          w4 = Dropdown_setupClickOutsideListener w3;
          w5 = popper_update w4;
          w6 = w5\<lparr>this := (this w5)\<lparr>visible := True\<rparr>\<rparr>
      in onShow w6)"

definition Dropdown_hide :: "world \<Rightarrow> world" where
  "Dropdown_hide w =
     (let w1 = classList_remove ''block'' w;
          w2 = classList_add ''hidden'' w1;
          w3 = popper_setOptions (EventListeners False) w2;
          w4 = w3\<lparr>this := (this w3)\<lparr>visible := False\<rparr>\<rparr>;
          w5 = Dropdown_removeClickOutsideListener w4
      in onHide w5)"

definition Dropdown_toggle :: "world \<Rightarrow> world" where
  "Dropdown_toggle w = (if visible (this w) then Dropdown_hide w else Dropdown_show w)"

text \<open>
  \<open>_handleClickOutside\<close>, for a click whose target is \<open>clickedEl\<close>. \<open>contains\<close> is
  \<open>Node.contains\<close> of the page. The conjunction is evaluated from the left and
  stops at the first false conjunct; reading \<open>contains\<close> of a null trigger element
  throws a TypeError.
\<close>

datatype error = TypeError

definition Dropdown_handleClickOutside ::
    "(node \<Rightarrow> node \<Rightarrow> bool) \<Rightarrow> node \<Rightarrow> world \<Rightarrow> error + world" where
  "Dropdown_handleClickOutside contains clickedEl w =
     (if clickedEl \<noteq> targetEl (this w) \<and> \<not> contains (targetEl (this w)) clickedEl
      then (case triggerEl (this w) of
              None \<Rightarrow> Inl TypeError
            | Some t \<Rightarrow>
                if \<not> contains t clickedEl \<and> visible (this w)
                then Inr (Dropdown_hide w) else Inr w)
      else Inr w)"

text \<open>A sequence of calls of the public methods.\<close>

datatype call = Show | Hide | Toggle

fun do_call :: "call \<Rightarrow> world \<Rightarrow> world" where
  "do_call Show w = Dropdown_show w"
| "do_call Hide w = Dropdown_hide w"
| "do_call Toggle w = Dropdown_toggle w"

fun run :: "call list \<Rightarrow> world \<Rightarrow> world" where
  "run [] w = w"
| "run (c # cs) w = run cs (do_call c w)"

text \<open>The options object \<open>{}\<close>.\<close>

definition no_options :: OptionsArg where
  "no_options = \<lparr>arg_placement = None, arg_triggerType = None,
     arg_offsetSkidding = None, arg_offsetDistance = None\<rparr>"

subsection \<open>The bulk initialiser\<close>

text \<open>
  \<open>parseInt\<close> with one argument, on ASCII strings: leading white space is skipped,
  a sign is read, the prefix \<open>0x\<close> or \<open>0X\<close> selects radix 16 (radix 10 otherwise),
  and the longest run of digits of the radix is the number; with no digit the
  result is \<open>NaN\<close>.
\<close>

definition is_white_space :: "char \<Rightarrow> bool" where
  "is_white_space c \<longleftrightarrow> (of_char c :: nat) \<in> {9, 10, 11, 12, 13, 32}"

definition digit_value :: "char \<Rightarrow> nat option" where
  "digit_value c =
     (let n = (of_char c :: nat)
      in if 48 \<le> n \<and> n \<le> 57 then Some (n - 48)
         else if 97 \<le> n \<and> n \<le> 122 then Some (n - 87)
         else if 65 \<le> n \<and> n \<le> 90 then Some (n - 55)
         else None)"

definition is_radix_digit :: "nat \<Rightarrow> char \<Rightarrow> bool" where
  "is_radix_digit R c = (case digit_value c of None \<Rightarrow> False | Some v \<Rightarrow> v < R)"

definition digits_value :: "nat \<Rightarrow> string \<Rightarrow> nat" where
  "digits_value R Z =
     foldl (\<lambda>a c. a * R + (case digit_value c of None \<Rightarrow> 0 | Some v \<Rightarrow> v)) 0 Z"

definition parseInt :: "string \<Rightarrow> js_number" where
  "parseInt s =
     (let S = dropWhile is_white_space s;
          negative = (case S of [] \<Rightarrow> False | c # r \<Rightarrow> c = CHR ''-'');
          S1 = (case S of [] \<Rightarrow> S
                | c # r \<Rightarrow> if c = CHR ''+'' \<or> c = CHR ''-'' then r else S);
          hex = (take 2 S1 = ''0x'' \<or> take 2 S1 = ''0X'');
          R = (if hex then 16 else 10);
          S2 = (if hex then drop 2 S1 else S1);
          Z = takeWhile (is_radix_digit R) S2
      in if Z = [] then NaN
         else Num ((if negative then - 1 else 1) * int (digits_value R Z)))"

text \<open>
  An element of the page: its handle, its attributes and its classes. The document
  is the list of its elements in tree order.
\<close>

record element =
  el_node :: node
  el_attrs :: "(string \<times> string) list"
  el_classes :: "string set"

type_synonym document = "element list"

definition getAttribute :: "element \<Rightarrow> string \<Rightarrow> string option" where
  "getAttribute e name = map_of (el_attrs e) name"

text \<open>\<open>querySelectorAll('[data-dropdown-toggle]')\<close>\<close>

definition querySelectorAll_toggle :: "document \<Rightarrow> element list" where
  "querySelectorAll_toggle doc =
     filter (\<lambda>e. getAttribute e ''data-dropdown-toggle'' \<noteq> None) doc"

text \<open>
  \<open>getElementById\<close>: the first element in tree order with that id; an empty
  \<open>id\<close> attribute gives an element no id.
\<close>

definition getElementById :: "document \<Rightarrow> string \<Rightarrow> element option" where
  "getElementById doc i =
     (if i = [] then None else find (\<lambda>e. getAttribute e ''id'' = Some i) doc)"

text \<open>The truth value JavaScript gives a string or null: false for null and for \<open>""\<close>.\<close>

definition truthy :: "string option \<Rightarrow> bool" where
  "truthy a = (case a of None \<Rightarrow> False | Some s \<Rightarrow> s \<noteq> [])"

text \<open>The options object that \<open>initDropdowns\<close> builds from the attributes of a trigger.\<close>

definition attribute_options :: "element \<Rightarrow> OptionsArg" where
  "attribute_options triggerEl' =
     (let placement' = getAttribute triggerEl' ''data-dropdown-placement'';
          offsetSkidding' = getAttribute triggerEl' ''data-dropdown-offset-skidding'';
          offsetDistance' = getAttribute triggerEl' ''data-dropdown-offset-distance'';
          triggerType' = getAttribute triggerEl' ''data-dropdown-trigger''
      in \<lparr>arg_placement =
             Some (case placement' of None \<Rightarrow> placement Default
                   | Some v \<Rightarrow> if truthy placement' then v else placement Default),
           arg_triggerType =
             Some (case triggerType' of None \<Rightarrow> triggerType Default
                   | Some v \<Rightarrow> if truthy triggerType' then v else triggerType Default),
           arg_offsetSkidding =
             Some (case offsetSkidding' of None \<Rightarrow> offsetSkidding Default
                   | Some v \<Rightarrow> if truthy offsetSkidding' then parseInt v
                              else offsetSkidding Default),
           arg_offsetDistance =
             Some (case offsetDistance' of None \<Rightarrow> offsetDistance Default
                   | Some v \<Rightarrow> if truthy offsetDistance' then parseInt v
                              else offsetDistance Default)\<rparr>)"

text \<open>
  \<open>getAttribute('data-dropdown-toggle')\<close> as the string that \<open>getElementById\<close>
  and the template of the error message make of it: null reads \<open>null\<close>.
\<close>

definition dropdownId_of :: "element \<Rightarrow> string" where
  "dropdownId_of triggerEl' =
     (case getAttribute triggerEl' ''data-dropdown-toggle'' of
        None \<Rightarrow> ''null'' | Some s \<Rightarrow> s)"

definition missing_message :: "string \<Rightarrow> string" where
  "missing_message dropdownId =
     ''The dropdown element with id '' @ [CHR 0x22] @ dropdownId @ [CHR 0x22] @
     '' does not exist. Please check the data-dropdown-toggle attribute.''"

text \<open>
  The controllers constructed so far and the console. Every controller is kept in
  a world of its own, as the constructor leaves it.
\<close>

record page =
  controllers :: "world list"
  page_console :: "console_entry list"

text \<open>The body of the \<open>forEach\<close> of \<open>initDropdowns\<close>.\<close>

definition initDropdowns_each :: "document \<Rightarrow> element \<Rightarrow> page \<Rightarrow> page" where
  "initDropdowns_each doc triggerEl' pg =
     (let dropdownId = dropdownId_of triggerEl'
      in case getElementById doc dropdownId of
           Some dropdownEl \<Rightarrow>
             (let w = Dropdown_new (el_node dropdownEl) (Some (el_node triggerEl'))
                        (attribute_options triggerEl') (el_classes dropdownEl)
              in pg\<lparr>controllers := controllers pg @ [w],
                    page_console := page_console pg @ console w\<rparr>)
         | None \<Rightarrow>
             pg\<lparr>page_console := page_console pg @
                   [ConsoleError (missing_message dropdownId)]\<rparr>)"

definition initDropdowns :: "document \<Rightarrow> page" where
  "initDropdowns doc =
     fold (initDropdowns_each doc) (querySelectorAll_toggle doc)
       \<lparr>controllers = [], page_console = []\<rparr>"

subsection \<open>Properties and example pages\<close>

text \<open>
  The visibility flag, the classes of the target element and the registration of
  an outside-click listener agree: visible exactly when the target carries
  \<open>block\<close> and not \<open>hidden\<close> and a listener is registered, hidden exactly when
  it carries \<open>hidden\<close> and not \<open>block\<close> and none is registered.
\<close>

definition state_agrees :: "world \<Rightarrow> bool" where
  "state_agrees w \<longleftrightarrow>
     (visible (this w) \<longleftrightarrow>
        ''block'' \<in> classList w \<and> ''hidden'' \<notin> classList w \<and> bodyListeners w \<noteq> []) \<and>
     (\<not> visible (this w) \<longleftrightarrow>
        ''hidden'' \<in> classList w \<and> ''block'' \<notin> classList w \<and> bodyListeners w = [])"

text \<open>
  The stronger fact that holds as long as \<open>show()\<close> is not called on a visible
  controller: while visible, the one registered listener is the one the controller
  holds.
\<close>

definition paired :: "world \<Rightarrow> bool" where
  "paired w \<longleftrightarrow>
     (if visible (this w)
      then (\<exists>f. bodyListeners w = [f] \<and> clickOutsideEventListener (this w) = Some f) \<and>
           ''block'' \<in> classList w \<and> ''hidden'' \<notin> classList w
      else bodyListeners w = [] \<and> ''hidden'' \<in> classList w \<and> ''block'' \<notin> classList w)"

fun show_only_when_hidden :: "call list \<Rightarrow> world \<Rightarrow> bool" where
  "show_only_when_hidden [] w = True"
| "show_only_when_hidden (c # cs) w =
     ((c = Show \<longrightarrow> \<not> visible (this w)) \<and> show_only_when_hidden cs (do_call c w))"


definition console_errors :: "console_entry list \<Rightarrow> string list" where
  "console_errors es =
     List.map_filter (\<lambda>e. case e of ConsoleError m \<Rightarrow> Some m | _ \<Rightarrow> None) es"

text \<open>
  A page with two marked triggers: the first refers to the element with the id
  \<open>menu\<close>, the second to an id that no element has.
\<close>

definition two_triggers :: document where
  "two_triggers =
     [\<lparr>el_node = 1, el_attrs = [(''data-dropdown-toggle'', ''menu'')], el_classes = {}\<rparr>,
      \<lparr>el_node = 2, el_attrs = [(''id'', ''menu'')], el_classes = {''hidden''}\<rparr>,
      \<lparr>el_node = 3, el_attrs = [(''data-dropdown-toggle'', ''nope'')], el_classes = {}\<rparr>]"

text \<open>A page whose trigger has an offset and a placement that mean nothing.\<close>

definition unparsable_offset :: document where
  "unparsable_offset =
     [\<lparr>el_node = 1,
       el_attrs = [(''data-dropdown-toggle'', ''menu''),
                   (''data-dropdown-offset-skidding'', ''abc''),
                   (''data-dropdown-placement'', ''nowhere'')],
       el_classes = {}\<rparr>,
      \<lparr>el_node = 2, el_attrs = [(''id'', ''menu'')], el_classes = {''hidden''}\<rparr>]"

section \<open>What the methods do to each part of the world\<close>

lemmas prims = classList_remove_def classList_add_def popper_setOptions_def popper_update_def
  Dropdown_setupClickOutsideListener_def Dropdown_removeClickOutsideListener_def
  onShow_def onHide_def

lemma show_this:
  "this (Dropdown_show w) =
     (this w)\<lparr>clickOutsideEventListener := Some (nextFn w), visible := True\<rparr>"
  by (simp add: Dropdown_show_def prims Let_def)

lemma show_classList:
  "classList (Dropdown_show w) = insert ''block'' (classList w - {''hidden''})"
  by (simp add: Dropdown_show_def prims Let_def)

lemma show_bodyListeners:
  "bodyListeners (Dropdown_show w) = addEventListener (nextFn w) (bodyListeners w)"
  by (simp add: Dropdown_show_def prims Let_def)

lemma show_nextFn: "nextFn (Dropdown_show w) = Suc (nextFn w)"
  by (simp add: Dropdown_show_def prims Let_def)



lemma hide_this: "this (Dropdown_hide w) = (this w)\<lparr>visible := False\<rparr>"
  by (simp add: Dropdown_hide_def prims Let_def)

lemma hide_classList:
  "classList (Dropdown_hide w) = insert ''hidden'' (classList w - {''block''})"
  by (simp add: Dropdown_hide_def prims Let_def)

lemma hide_bodyListeners:
  "bodyListeners (Dropdown_hide w) =
     removeEventListener (clickOutsideEventListener (this w)) (bodyListeners w)"
  by (simp add: Dropdown_hide_def prims Let_def)

lemma hide_nextFn: "nextFn (Dropdown_hide w) = nextFn w"
  by (simp add: Dropdown_hide_def prims Let_def)


lemma hide_trace:
  "trace (Dropdown_hide w) = trace w @
     [ClassListRemove ''block'', ClassListAdd ''hidden'',
      PopperSetOptions (EventListeners False),
      RemoveEventListener (clickOutsideEventListener (this w)),
      OnHide ((this w)\<lparr>visible := False\<rparr>)]"
  by (simp add: Dropdown_hide_def prims Let_def)

lemma hide_changes_world: "Dropdown_hide w \<noteq> w"
proof -
  have "trace (Dropdown_hide w) \<noteq> trace w" by (simp add: hide_trace)
  then show ?thesis by auto
qed


lemma init_this: "this (Dropdown_init w) = this w"
  by (simp add: Dropdown_init_def Let_def split: option.splits)

lemma init_classList: "classList (Dropdown_init w) = classList w"
  by (simp add: Dropdown_init_def Let_def split: option.splits)

lemma init_bodyListeners: "bodyListeners (Dropdown_init w) = bodyListeners w"
  by (simp add: Dropdown_init_def Let_def split: option.splits)


lemma init_console_errors:
  "console_errors (console (Dropdown_init w)) = console_errors (console w)"
  by (simp add: Dropdown_init_def Let_def console_errors_def map_filter_def
      split: option.splits)

text \<open>With a trigger type that is neither \<open>click\<close> nor \<open>hover\<close>, \<open>_init\<close> does nothing.\<close>

lemma init_other_triggerType:
  "triggerType (options (this w)) \<noteq> ''click'' \<Longrightarrow>
   triggerType (options (this w)) \<noteq> ''hover'' \<Longrightarrow> Dropdown_init w = w"
  by (simp add: Dropdown_init_def Let_def split: option.splits)

lemma new_this:
  "this (Dropdown_new t tr opts cls) =
     \<lparr>targetEl = t, triggerEl = tr, options = merge_options Default opts,
      visible = False, clickOutsideEventListener = None\<rparr>"
  by (simp add: Dropdown_new_def Let_def init_this)

lemma new_classList: "classList (Dropdown_new t tr opts cls) = cls"
  by (simp add: Dropdown_new_def Let_def init_classList)

lemma new_bodyListeners: "bodyListeners (Dropdown_new t tr opts cls) = []"
  by (simp add: Dropdown_new_def Let_def init_bodyListeners)


lemma new_console_errors: "console_errors (console (Dropdown_new t tr opts cls)) = []"
  by (simp add: Dropdown_new_def Let_def init_console_errors)
    (simp add: console_errors_def map_filter_def)

lemmas eval_defs = Dropdown_new_def Dropdown_init_def Dropdown_getTriggerEvents_def
  merge_options_def Default_def no_options_def Let_def
  show_this show_classList show_bodyListeners show_nextFn
  hide_this hide_classList hide_bodyListeners hide_nextFn
  addEventListener_def removeEventListener_def

subsection \<open>Runs in which show() is only called on a hidden controller\<close>

lemma paired_show: "paired w \<Longrightarrow> \<not> visible (this w) \<Longrightarrow> paired (Dropdown_show w)"
  by (simp add: paired_def show_this show_classList show_bodyListeners addEventListener_def)

lemma paired_hide: "paired w \<Longrightarrow> paired (Dropdown_hide w)"
  by (auto simp: paired_def hide_this hide_classList hide_bodyListeners
      removeEventListener_def split: option.splits if_splits)

lemma paired_toggle: "paired w \<Longrightarrow> paired (Dropdown_toggle w)"
  by (simp add: Dropdown_toggle_def paired_show paired_hide)

lemma paired_run: "paired w \<Longrightarrow> show_only_when_hidden cs w \<Longrightarrow> paired (run cs w)"
proof (induction cs arbitrary: w)
  case Nil
  then show ?case by simp
next
  case (Cons c cs)
  then have "paired (do_call c w)"
    by (cases c) (simp_all add: paired_show paired_hide paired_toggle)
  with Cons show ?case by simp
qed

lemma paired_agrees: "paired w \<Longrightarrow> state_agrees w"
  by (auto simp: paired_def state_agrees_def split: if_splits)

text \<open>
  From a target that carries \<open>hidden\<close> and not \<open>block\<close>, every run of \<open>show()\<close>,
  \<open>hide()\<close> and \<open>toggle()\<close> that never calls \<open>show()\<close> on a visible controller
  keeps flag, classes and listener registration in agreement.
\<close>

lemma agreement_without_repeated_show:
  assumes "''hidden'' \<in> cls" and "''block'' \<notin> cls"
    and "show_only_when_hidden cs (Dropdown_new t tr opts cls)"
  shows "state_agrees (run cs (Dropdown_new t tr opts cls))"
proof -
  have "paired (Dropdown_new t tr opts cls)"
    using assms(1,2) by (simp add: paired_def new_this new_classList new_bodyListeners)
  then show ?thesis using assms(3) by (intro paired_agrees paired_run)
qed

subsection \<open>The loop of the bulk initialiser\<close>

lemma console_errors_append:
  "console_errors (xs @ ys) = console_errors xs @ console_errors ys"
  by (simp add: console_errors_def map_filter_def)

lemma each_controllers:
  "controllers (initDropdowns_each doc t pg) = controllers pg @
     (case getElementById doc (dropdownId_of t) of
        None \<Rightarrow> []
      | Some e \<Rightarrow> [Dropdown_new (el_node e) (Some (el_node t)) (attribute_options t)
                     (el_classes e)])"
  by (simp add: initDropdowns_each_def Let_def split: option.splits)

lemma each_errors:
  "console_errors (page_console (initDropdowns_each doc t pg)) =
     console_errors (page_console pg) @
     (case getElementById doc (dropdownId_of t) of
        None \<Rightarrow> [missing_message (dropdownId_of t)]
      | Some e \<Rightarrow> [])"
  by (simp add: initDropdowns_each_def Let_def console_errors_append new_console_errors
      split: option.splits)
    (simp add: console_errors_def map_filter_def)

lemma fold_controllers:
  "controllers (fold (initDropdowns_each doc) ts pg) = controllers pg @
     List.map_filter (\<lambda>t. map_option
        (\<lambda>e. Dropdown_new (el_node e) (Some (el_node t)) (attribute_options t) (el_classes e))
        (getElementById doc (dropdownId_of t))) ts"
  by (induction ts arbitrary: pg)
    (auto simp: each_controllers map_filter_def split: option.splits)

lemma fold_errors:
  "console_errors (page_console (fold (initDropdowns_each doc) ts pg)) =
     console_errors (page_console pg) @
     map (\<lambda>t. missing_message (dropdownId_of t))
       (filter (\<lambda>t. getElementById doc (dropdownId_of t) = None) ts)"
  by (induction ts arbitrary: pg) (auto simp: each_errors split: option.splits)

lemma attribute_options_merged:
  "options (this (Dropdown_new n tr (attribute_options t) cls)) =
     \<lparr>placement = (case getAttribute t ''data-dropdown-placement'' of
                     None \<Rightarrow> ''bottom'' | Some v \<Rightarrow> if v = [] then ''bottom'' else v),
      triggerType = (case getAttribute t ''data-dropdown-trigger'' of
                     None \<Rightarrow> ''click'' | Some v \<Rightarrow> if v = [] then ''click'' else v),
      offsetSkidding = (case getAttribute t ''data-dropdown-offset-skidding'' of
                     None \<Rightarrow> Num 0 | Some v \<Rightarrow> if v = [] then Num 0 else parseInt v),
      offsetDistance = (case getAttribute t ''data-dropdown-offset-distance'' of
                     None \<Rightarrow> Num 10 | Some v \<Rightarrow> if v = [] then Num 10 else parseInt v)\<rparr>"
  by (simp add: new_this merge_options_def attribute_options_def truthy_def Default_def Let_def
      split: option.splits)

lemma parseInt_abc: "parseInt ''abc'' = NaN"
  by (simp add: parseInt_def is_white_space_def is_radix_digit_def digit_value_def Let_def)

section \<open>The claims\<close>

text \<open>
  C1: in every state reached from a new controller, whose target carries \<open>hidden\<close>
  and not \<open>block\<close>, by calls of \<open>show()\<close>, \<open>hide()\<close> and \<open>toggle()\<close>, the
  controller is visible exactly when the target carries \<open>block\<close> and not
  \<open>hidden\<close> and an outside-click listener is registered, and hidden exactly when
  the classes are the other way round and none is registered.
  The code does not keep this: \<open>show()\<close> on a visible controller registers a
  second closure and forgets the first, \<open>hide()\<close> removes the second only, and
  the controller is hidden with a listener still registered.
\<close>

theorem repeated_show_breaks_agreement:
  "\<not> state_agrees (run [Show, Show, Hide] (Dropdown_new 1 (Some 2) no_options {''hidden''}))"
  by (simp add: state_agrees_def eval_defs)


text \<open>
  C3: for a controller with a trigger element, the outside-click handler calls
  \<open>hide()\<close> if the clicked node is not the target, is not contained in the target,
  is not contained in the trigger, and the controller is visible; in every other
  case it leaves the world as it is. \<open>hide()\<close> never leaves the world as it is, so
  the two outcomes are distinct.
\<close>

theorem handleClickOutside_hides_iff:
  assumes "triggerEl (this w) = Some t"
  shows "(clickedEl \<noteq> targetEl (this w) \<and> \<not> contains (targetEl (this w)) clickedEl \<and>
          \<not> contains t clickedEl \<and> visible (this w) \<longrightarrow>
            Dropdown_handleClickOutside contains clickedEl w = Inr (Dropdown_hide w)) \<and>
         (\<not> (clickedEl \<noteq> targetEl (this w) \<and> \<not> contains (targetEl (this w)) clickedEl \<and>
             \<not> contains t clickedEl \<and> visible (this w)) \<longrightarrow>
            Dropdown_handleClickOutside contains clickedEl w = Inr w) \<and>
         Dropdown_hide w \<noteq> w"
  using assms by (auto simp: Dropdown_handleClickOutside_def hide_changes_world)

text \<open>
  On a visible controller with target 1 and trigger 2, where a node contains only
  itself: a click on node 3 hides, a click on the trigger changes nothing.
\<close>

theorem handleClickOutside_hides_iff_witness:
  "Dropdown_handleClickOutside (=) 3
     (Dropdown_show (Dropdown_new 1 (Some 2) no_options {''hidden''})) =
     Inr (Dropdown_hide (Dropdown_show (Dropdown_new 1 (Some 2) no_options {''hidden''}))) \<and>
   Dropdown_handleClickOutside (=) 2
     (Dropdown_show (Dropdown_new 1 (Some 2) no_options {''hidden''})) =
     Inr (Dropdown_show (Dropdown_new 1 (Some 2) no_options {''hidden''}))"
proof -
  have h: "triggerEl (this (Dropdown_show (Dropdown_new 1 (Some 2) no_options {''hidden''}))) =
             Some 2"
    by (simp add: show_this new_this)
  show ?thesis
    using handleClickOutside_hides_iff [OF h, of 3 "(=)"]
      handleClickOutside_hides_iff [OF h, of 2 "(=)"]
    by (simp add: show_this new_this)
qed

text \<open>
  C4: a controller constructed with a trigger element and a trigger type that is
  neither \<open>click\<close> nor \<open>hover\<close> is wired as in click mode, a click on the trigger
  calling \<open>toggle()\<close>.
  The code does not do this: \<open>_getTriggerEvents\<close> answers with the events of click
  mode, but \<open>_init\<close> attaches listeners only for the two known types, so with the
  type \<open>focus\<close> the trigger gets no listener at all, where click mode attaches one.
\<close>

theorem unrecognized_triggerType_wires_nothing:
  "elListeners (Dropdown_new 1 (Some 2) (no_options\<lparr>arg_triggerType := Some ''focus''\<rparr>)
     {''hidden''}) = [] \<and>
   Dropdown_getTriggerEvents (this (Dropdown_new 1 (Some 2)
     (no_options\<lparr>arg_triggerType := Some ''focus''\<rparr>) {''hidden''})) = ([''click''], []) \<and>
   elListeners (Dropdown_new 1 (Some 2) (no_options\<lparr>arg_triggerType := Some ''click''\<rparr>)
     {''hidden''}) = [(2, ''click'', CallToggle)]"
  by (simp add: eval_defs)


text \<open>
  C6, as amended: when the target carries \<open>hidden\<close> and not \<open>block\<close>, and the
  closure that \<open>show()\<close> creates is a new function object, \<open>show()\<close> followed by
  \<open>hide()\<close> leaves the classes of the target and the listeners registered on
  \<open>document.body\<close> as they were.
\<close>

theorem show_hide_round_trip:
  assumes "''hidden'' \<in> classList w" and "''block'' \<notin> classList w"
    and "\<forall>f \<in> set (bodyListeners w). f < nextFn w"
  shows "classList (Dropdown_hide (Dropdown_show w)) = classList w \<and>
         bodyListeners (Dropdown_hide (Dropdown_show w)) = bodyListeners w"
proof -
  have "nextFn w \<notin> set (bodyListeners w)" using assms(3) by auto
  then have "bodyListeners (Dropdown_hide (Dropdown_show w)) = bodyListeners w"
    by (simp add: hide_bodyListeners show_bodyListeners show_this addEventListener_def
        removeEventListener_def remove1_append)
  moreover have "classList (Dropdown_hide (Dropdown_show w)) = classList w"
    using assms(1,2) by (auto simp: hide_classList show_classList)
  ultimately show ?thesis by simp
qed

theorem show_hide_round_trip_witness:
  "classList (Dropdown_hide (Dropdown_show (Dropdown_new 1 (Some 2) no_options {''hidden''}))) =
     {''hidden''} \<and>
   bodyListeners (Dropdown_hide (Dropdown_show (Dropdown_new 1 (Some 2) no_options {''hidden''}))) =
     []"
proof -
  have a: "''hidden'' \<in> classList (Dropdown_new 1 (Some 2) no_options {''hidden''})"
    and b: "''block'' \<notin> classList (Dropdown_new 1 (Some 2) no_options {''hidden''})"
    and c: "\<forall>f \<in> set (bodyListeners (Dropdown_new 1 (Some 2) no_options {''hidden''})).
              f < nextFn (Dropdown_new 1 (Some 2) no_options {''hidden''})"
    by (simp_all add: new_classList new_bodyListeners)
  show ?thesis
    using show_hide_round_trip [OF a b c] by (simp add: new_classList new_bodyListeners)
qed

text \<open>
  The claim as stated, for every class state, fails on a target without classes:
  after \<open>show()\<close> and \<open>hide()\<close> it carries \<open>hidden\<close>.
\<close>

theorem show_hide_round_trip_counterexample:
  "classList (Dropdown_hide (Dropdown_show (Dropdown_new 1 (Some 2) no_options {}))) =
     {''hidden''} \<and>
   classList (Dropdown_new 1 (Some 2) no_options {}) = {}"
  by (simp add: hide_classList show_classList new_classList)

text \<open>
  C7: over every sequence of \<open>show()\<close> and \<open>hide()\<close>, the outside-click listener
  is never registered twice at the same time and never left registered with no
  way to remove it.
  The code does not keep this: after \<open>show()\<close>, \<open>show()\<close> two closures are
  registered; \<open>hide()\<close> removes the second, which is the one the controller
  holds, and no later \<open>hide()\<close> removes the first.
\<close>

theorem repeated_show_leaks_listener:
  "bodyListeners (run [Show, Show] (Dropdown_new 1 (Some 2) no_options {''hidden''})) =
     [0, 1] \<and>
   bodyListeners (run [Show, Show, Hide] (Dropdown_new 1 (Some 2) no_options {''hidden''})) =
     [0] \<and>
   clickOutsideEventListener
     (this (run [Show, Show, Hide] (Dropdown_new 1 (Some 2) no_options {''hidden''}))) =
     Some 1 \<and>
   bodyListeners (run [Show, Show, Hide, Hide] (Dropdown_new 1 (Some 2) no_options {''hidden''})) =
     [0]"
  by (simp add: eval_defs)

text \<open>
  C8, as amended: for the controllers that the bulk initialiser constructs, in the
  order of their triggers, each of placement, trigger type, offset skidding and
  offset distance is the default when the attribute is absent or empty; a
  non-empty placement or trigger type is taken as it is, and a non-empty offset
  is what \<open>parseInt\<close> makes of it.
\<close>

theorem initDropdowns_options:
  "map (\<lambda>w. options (this w)) (controllers (initDropdowns doc)) =
     map (\<lambda>t.
       \<lparr>placement = (case getAttribute t ''data-dropdown-placement'' of
                       None \<Rightarrow> ''bottom'' | Some v \<Rightarrow> if v = [] then ''bottom'' else v),
        triggerType = (case getAttribute t ''data-dropdown-trigger'' of
                       None \<Rightarrow> ''click'' | Some v \<Rightarrow> if v = [] then ''click'' else v),
        offsetSkidding = (case getAttribute t ''data-dropdown-offset-skidding'' of
                       None \<Rightarrow> Num 0 | Some v \<Rightarrow> if v = [] then Num 0 else parseInt v),
        offsetDistance = (case getAttribute t ''data-dropdown-offset-distance'' of
                       None \<Rightarrow> Num 10 | Some v \<Rightarrow> if v = [] then Num 10 else parseInt v)\<rparr>)
       (filter (\<lambda>t. getElementById doc (dropdownId_of t) \<noteq> None)
          (querySelectorAll_toggle doc))"
proof -
  have "map (\<lambda>w. options (this w)) (List.map_filter (\<lambda>t. map_option
        (\<lambda>e. Dropdown_new (el_node e) (Some (el_node t)) (attribute_options t) (el_classes e))
        (getElementById doc (dropdownId_of t))) ts) =
     map (\<lambda>t. options (this (Dropdown_new 0 None (attribute_options t) {})))
       (filter (\<lambda>t. getElementById doc (dropdownId_of t) \<noteq> None) ts)" for ts
    by (induction ts) (auto simp: map_filter_def attribute_options_merged)
  then show ?thesis
    by (simp add: initDropdowns_def fold_controllers attribute_options_merged)
qed

theorem initDropdowns_options_witness:
  "map (\<lambda>w. options (this w)) (controllers (initDropdowns two_triggers)) =
     [\<lparr>placement = ''bottom'', triggerType = ''click'',
       offsetSkidding = Num 0, offsetDistance = Num 10\<rparr>]"
  using initDropdowns_options [of two_triggers]
  by (simp add: two_triggers_def querySelectorAll_toggle_def getAttribute_def
      getElementById_def dropdownId_of_def)

text \<open>
  The claim as stated fails on a trigger whose offset skidding is \<open>abc\<close> and whose
  placement is \<open>nowhere\<close>: the controller gets the offset \<open>NaN\<close> and the
  placement \<open>nowhere\<close>, not the defaults.
\<close>

theorem unparsable_offset_counterexample:
  "map (\<lambda>w. offsetSkidding (options (this w))) (controllers (initDropdowns unparsable_offset)) =
     [NaN] \<and>
   map (\<lambda>w. placement (options (this w))) (controllers (initDropdowns unparsable_offset)) =
     [''nowhere''] \<and>
   offsetSkidding Default = Num 0 \<and> placement Default = ''bottom''"
  by (simp add: initDropdowns_def each_controllers unparsable_offset_def
      querySelectorAll_toggle_def getAttribute_def getElementById_def dropdownId_of_def
      attribute_options_merged parseInt_abc Default_def)

text \<open>
  C9: the bulk initialiser constructs one controller for every marked trigger
  whose target identifier resolves, and reports one error, and constructs nothing,
  for every marked trigger whose identifier does not resolve; both in the order of
  the triggers.
\<close>

theorem initDropdowns_outcomes:
  "controllers (initDropdowns doc) =
     List.map_filter (\<lambda>t. map_option
        (\<lambda>e. Dropdown_new (el_node e) (Some (el_node t)) (attribute_options t) (el_classes e))
        (getElementById doc (dropdownId_of t))) (querySelectorAll_toggle doc) \<and>
   console_errors (page_console (initDropdowns doc)) =
     map (\<lambda>t. missing_message (dropdownId_of t))
       (filter (\<lambda>t. getElementById doc (dropdownId_of t) = None)
          (querySelectorAll_toggle doc)) \<and>
   length (controllers (initDropdowns doc)) =
     length (filter (\<lambda>t. getElementById doc (dropdownId_of t) \<noteq> None)
       (querySelectorAll_toggle doc)) \<and>
   length (console_errors (page_console (initDropdowns doc))) =
     length (filter (\<lambda>t. getElementById doc (dropdownId_of t) = None)
       (querySelectorAll_toggle doc))"
proof -
  have c: "controllers (initDropdowns doc) =
     List.map_filter (\<lambda>t. map_option
        (\<lambda>e. Dropdown_new (el_node e) (Some (el_node t)) (attribute_options t) (el_classes e))
        (getElementById doc (dropdownId_of t))) (querySelectorAll_toggle doc)"
    by (simp add: initDropdowns_def fold_controllers)
  have e: "console_errors (page_console (initDropdowns doc)) =
     map (\<lambda>t. missing_message (dropdownId_of t))
       (filter (\<lambda>t. getElementById doc (dropdownId_of t) = None)
          (querySelectorAll_toggle doc))"
    by (simp add: initDropdowns_def fold_errors) (simp add: console_errors_def map_filter_def)
  have lc: "length (controllers (initDropdowns doc)) =
     length (filter (\<lambda>t. getElementById doc (dropdownId_of t) \<noteq> None)
       (querySelectorAll_toggle doc))"
    by (simp add: c map_filter_def)
  have le: "length (console_errors (page_console (initDropdowns doc))) =
     length (filter (\<lambda>t. getElementById doc (dropdownId_of t) = None)
       (querySelectorAll_toggle doc))"
    by (simp add: e)
  from c e lc le show ?thesis by (intro conjI)
qed

text \<open>
  With one trigger that refers to an element of the page and one that does not,
  one controller is constructed and one error is reported.
\<close>

theorem initDropdowns_outcomes_witness:
  "length (controllers (initDropdowns two_triggers)) = 1 \<and>
   console_errors (page_console (initDropdowns two_triggers)) = [missing_message ''nope'']"
  using initDropdowns_outcomes [of two_triggers]
  by (simp add: two_triggers_def querySelectorAll_toggle_def getAttribute_def
      getElementById_def dropdownId_of_def)



end
